theory Spec2Isabelle
  imports Main "HOL-Library.Sublist"
begin

section \<open>SQL generation for the MDS provider database (mds/db/sql.py)\<close>

subsection \<open>Collaborators that sql.py imports\<close>

text \<open>Modelled from the spec: the class \<^verbatim>\<open>Version\<close> of
  \<^verbatim>\<open>mds/versions.py\<close> is imported by sql.py and is not part of the sources. The
  spec describes it as a comparable semantic-version value of the form major.minor.patch.
  A version is therefore the triple of its numbers: \<^verbatim>\<open>Version("0.3.0")\<close> is
  \<open>Version 0 3 0\<close>, and the constructor call \<^verbatim>\<open>Version(x)\<close> on a string
  or on a version is the triple that \<^verbatim>\<open>x\<close> denotes.\<close>

datatype version = Version (major: nat) (minor: nat) (patch: nat)

text \<open>Modelled from the spec: the comparison \<^verbatim>\<open><\<close> of the absent class
  \<^verbatim>\<open>Version\<close>. The spec requires that comparisons follow the standard
  major.minor.patch ordering, not the ordering of the strings.\<close>

definition version_less :: "version \<Rightarrow> version \<Rightarrow> bool" where
  "version_less a b \<longleftrightarrow>
     major a < major b \<or>
     (major a = major b \<and> (minor a < minor b \<or> (minor a = minor b \<and> patch a < patch b)))"

text \<open>
  The supported release range is decided inside \<^verbatim>\<open>mds/versions.py\<close> too, and
  the spec gives no bounds for it. Both things that sql.py asks of the class are
  parameters of the model: the property \<^verbatim>\<open>version.unsupported\<close> and the class
  method \<^verbatim>\<open>Version.mds_lower()\<close>.
\<close>

record versions =
  unsupported :: "version \<Rightarrow> bool"
  mds_lower :: version

text \<open>The exception that the builders raise, with the version it is raised with.\<close>

datatype error = UnsupportedVersionError version

text \<open>Modelled from the spec: the constant \<^verbatim>\<open>STATUS_CHANGES\<close> of
  \<^verbatim>\<open>mds/schemas.py\<close> is not part of the sources; the spec gives the canonical
  table name "status_changes".\<close>

definition STATUS_CHANGES :: string where
  "STATUS_CHANGES = ''status_changes''"

text \<open>Modelled from the spec: the constant \<^verbatim>\<open>TRIPS\<close> of
  \<^verbatim>\<open>mds/schemas.py\<close> is not part of the sources; the spec gives the canonical
  table name "trips".\<close>

definition TRIPS :: string where
  "TRIPS = ''trips''"

subsection \<open>Python lists on a heap\<close>

text \<open>
  sql.py keeps two module-level lists and builds the column lists of each statement by
  copying them (\<^verbatim>\<open>list(xs)\<close>) and extending the copy in place
  (\<^verbatim>\<open>xs.extend(ys)\<close>, here \<open>list_extend\<close>). Lists are therefore heap
  objects: a reference is an index into the heap, \<^verbatim>\<open>list(xs)\<close> allocates a
  new object with the elements of \<^verbatim>\<open>xs\<close>, and \<^verbatim>\<open>extend\<close>
  updates the object it is called on.
\<close>

type_synonym ref = nat
type_synonym heap = "string list list"

definition py_list :: "ref \<Rightarrow> heap \<Rightarrow> ref \<times> heap" where
  "py_list r h = (length h, h @ [h ! r])"

definition list_extend :: "ref \<Rightarrow> string list \<Rightarrow> heap \<Rightarrow> heap" where
  "list_extend r ys h = h[r := h ! r @ ys]"

text \<open>\<^verbatim>\<open>sep.join(xs)\<close> on a list of strings.\<close>

fun join :: "string \<Rightarrow> string list \<Rightarrow> string" where
  "join sep [] = []"
| "join sep [x] = x"
| "join sep (x # y # ys) = x @ sep @ join sep (y # ys)"

abbreviation apostrophe :: string where
  "apostrophe \<equiv> [CHR 0x27]"

subsection \<open>Module state after import (sql.py lines 9 to 25)\<close>

definition COMMON_INSERTS :: ref where
  "COMMON_INSERTS = 0"

definition COMMON_SELECTS :: ref where
  "COMMON_SELECTS = 1"

text \<open>
  In the list display of \<^verbatim>\<open>_COMMON_SELECTS\<close> the literal
  \<^verbatim>\<open>"vehicle_id,"\<close> has its comma inside the quotes and no comma after them, so
  Python joins it with the literal on the next line into one element.
\<close>

definition module_heap :: heap where
  \<open>module_heap =
    [ [''provider_id'',
       ''provider_name'',
       ''device_id'',
       ''vehicle_id'',
       ''vehicle_type'',
       ''propulsion_type''],
      [''cast(provider_id as uuid)'',
       ''provider_name'',
       ''cast(device_id as uuid)'',
       ''vehicle_id,'' @
       ''cast(vehicle_type as vehicle_types)'',
       ''cast(propulsion_type as propulsion_types[])''] ]\<close>

text \<open>
  A state in which the module is loaded and its tables are intact: the first two objects
  of the heap are the two module tables with their initial elements. Whatever calls have
  allocated lies behind them.
\<close>

definition module_loaded :: "heap \<Rightarrow> bool" where
  "module_loaded h \<longleftrightarrow> take 2 h = module_heap"

subsection \<open>on\_conflict\_statement\<close>

text \<open>
  The argument \<^verbatim>\<open>on_conflict_update\<close> is documented as a tuple
  \<^verbatim>\<open>(condition: str, actions: str, list, dict)\<close>. The model has that tuple, the
  values a caller may pass in its place without a condition (a string, a list, a dict),
  \<^verbatim>\<open>None\<close>, booleans and integers. A dict is the list of its items in iteration
  order.
\<close>

datatype actions =
    Str string
  | List "string list"
  | Dict "(string \<times> string) list"

datatype on_conflict_update =
    PyNone
  | PyBool bool
  | PyInt int
  | Bare actions
  | Tuple string actions

text \<open>Python's truth value of an object, as \<^verbatim>\<open>if on_conflict_update:\<close> tests it.\<close>

fun truthy :: "on_conflict_update \<Rightarrow> bool" where
  "truthy PyNone = False"
| "truthy (PyBool b) = b"
| "truthy (PyInt i) = (i \<noteq> 0)"
| "truthy (Bare (Str s)) = (s \<noteq> [])"
| "truthy (Bare (List xs)) = (xs \<noteq> [])"
| "truthy (Bare (Dict kvs)) = (kvs \<noteq> [])"
| "truthy (Tuple condition acts) = True"

fun isinstance_tuple :: "on_conflict_update \<Rightarrow> bool" where
  "isinstance_tuple (Tuple condition acts) = True"
| "isinstance_tuple _ = False"

text \<open>
  The parameter has the default \<^verbatim>\<open>None\<close>: the argument of the model is
  \<open>None\<close> when the caller passes nothing.
\<close>

definition on_conflict_statement :: "on_conflict_update option \<Rightarrow> string" where
  \<open>on_conflict_statement arg =
    (let on_conflict_update = (case arg of None \<Rightarrow> PyNone | Some x \<Rightarrow> x) in
     if truthy on_conflict_update then
       if isinstance_tuple on_conflict_update then
         (case on_conflict_update of
            Tuple condition acts \<Rightarrow>
              (let acts' =
                 (case acts of
                    List xs \<Rightarrow> join '','' xs
                  | Dict kvs \<Rightarrow> join '','' (map (\<lambda>(k, v). k @ '' = '' @ v) kvs)
                  | Str s \<Rightarrow> s)
               in ''ON CONFLICT '' @ condition @ '' DO UPDATE SET '' @ acts')
          | _ \<Rightarrow> ''ON CONFLICT DO NOTHING'')
       else ''ON CONFLICT DO NOTHING''
     else ''ON CONFLICT DO NOTHING'')\<close>

subsection \<open>The two statement builders\<close>

text \<open>
  The keyword arguments that the builders pop from \<^verbatim>\<open>**kwargs\<close>; a field is
  \<open>None\<close> when the keyword is not passed. Any other keyword is never read.
\<close>

record kwargs =
  kw_version :: "version option"
  kw_on_conflict_update :: "on_conflict_update option"

definition insert_status_changes_from ::
  "versions \<Rightarrow> string \<Rightarrow> string option \<Rightarrow> kwargs \<Rightarrow> heap \<Rightarrow> (error + string) \<times> heap" where
  \<open>insert_status_changes_from V source_table dest_table_arg kwargs h0 =
    (let dest_table = (case dest_table_arg of None \<Rightarrow> STATUS_CHANGES | Some d \<Rightarrow> d);
         version = (case kw_version kwargs of None \<Rightarrow> mds_lower V | Some v \<Rightarrow> v)
     in
     if unsupported V version then (Inl (UnsupportedVersionError version), h0)
     else
       let on_conflict_update =
             (case kw_on_conflict_update kwargs of None \<Rightarrow> PyNone | Some x \<Rightarrow> x);
           on_conflict = on_conflict_statement (Some on_conflict_update);
           (inserts, h1) = py_list COMMON_INSERTS h0;
           h2 = list_extend inserts
                  [''event_type'',
                   ''event_type_reason'',
                   ''event_location'',
                   ''battery_pct''] h1;
           (selects, h3) = py_list COMMON_SELECTS h2;
           h4 = list_extend selects
                  [''cast(event_type as event_types)'',
                   ''cast(event_type_reason as event_type_reasons)'',
                   ''cast(event_location as jsonb)'',
                   ''battery_pct''] h3;
           h5 = (if version_less version (Version 0 3 0) then
                   list_extend selects
                     [''to_timestamp(event_time) at time zone 'UTC'' @ apostrophe,
                      ''cast(associated_trips as uuid[])'']
                     (list_extend inserts
                        [''event_time'',
                         ''associated_trips''] h4)
                 else
                   list_extend selects
                     [''to_timestamp(cast(event_time as double precision) / 1000.0) at time zone 'UTC''
                        @ apostrophe,
                      ''to_timestamp(cast(publication_time as double precision) / 1000.0) at time zone 'UTC''
                        @ apostrophe,
                      ''cast(associated_trip as uuid)'']
                     (list_extend inserts
                        [''event_time'',
                         ''publication_time'',
                         ''associated_trip''] h4));
           inserts_joined = join '','' (h5 ! inserts);
           selects_joined = join '','' (h5 ! selects)
       in (Inr (''\<newline>    INSERT INTO "'' @ dest_table @ ''"\<newline>    ('' @ inserts_joined
                  @ '')\<newline>    SELECT '' @ selects_joined
                  @ ''\<newline>    FROM "'' @ source_table @ ''"\<newline>    '' @ on_conflict
                  @ ''\<newline>    ;\<newline>    ''), h5))\<close>

definition insert_trips_from ::
  "versions \<Rightarrow> string \<Rightarrow> string option \<Rightarrow> kwargs \<Rightarrow> heap \<Rightarrow> (error + string) \<times> heap" where
  \<open>insert_trips_from V source_table dest_table_arg kwargs h0 =
    (let dest_table = (case dest_table_arg of None \<Rightarrow> TRIPS | Some d \<Rightarrow> d);
         version = (case kw_version kwargs of None \<Rightarrow> mds_lower V | Some v \<Rightarrow> v)
     in
     if unsupported V version then (Inl (UnsupportedVersionError version), h0)
     else
       let on_conflict_update =
             (case kw_on_conflict_update kwargs of None \<Rightarrow> PyNone | Some x \<Rightarrow> x);
           on_conflict = on_conflict_statement (Some on_conflict_update);
           (inserts, h1) = py_list COMMON_INSERTS h0;
           h2 = list_extend inserts
                  [''trip_id'',
                   ''trip_duration'',
                   ''trip_distance'',
                   ''route'',
                   ''accuracy'',
                   ''parking_verification_url'',
                   ''standard_cost'',
                   ''actual_cost''] h1;
           (selects, h3) = py_list COMMON_SELECTS h2;
           h4 = list_extend selects
                  [''cast(trip_id as uuid)'',
                   ''trip_duration'',
                   ''trip_distance'',
                   ''cast(route as jsonb)'',
                   ''accuracy'',
                   ''parking_verification_url,'' @
                   ''standard_cost,'' @
                   ''actual_cost''] h3;
           h5 = (if version_less version (Version 0 3 0) then
                   list_extend selects
                     [''to_timestamp(start_time) at time zone 'UTC'' @ apostrophe,
                      ''to_timestamp(end_time) at time zone 'UTC'' @ apostrophe]
                     (list_extend inserts
                        [''start_time'',
                         ''end_time''] h4)
                 else
                   list_extend selects
                     [''to_timestamp(cast(start_time as double precision) / 1000.0) at time zone 'UTC''
                        @ apostrophe,
                      ''to_timestamp(cast(end_time as double precision) / 1000.0) at time zone 'UTC''
                        @ apostrophe,
                      ''to_timestamp(cast(publication_time as double precision) / 1000.0) at time zone 'UTC''
                        @ apostrophe]
                     (list_extend inserts
                        [''start_time'',
                         ''end_time'',
                         ''publication_time''] h4));
           inserts_joined = join '','' (h5 ! inserts);
           selects_joined = join '','' (h5 ! selects)
       in (Inr (''\<newline>    INSERT INTO "'' @ dest_table @ ''"\<newline>    ('' @ inserts_joined
                  @ '')\<newline>    SELECT '' @ selects_joined
                  @ ''\<newline>    FROM "'' @ source_table @ ''"\<newline>    '' @ on_conflict
                  @ ''\<newline>    ;\<newline>    ''), h5))\<close>

subsection \<open>Reading a statement as SQL text\<close>

text \<open>
  The statement is laid out over several lines, each indented by four spaces. Its
  whitespace-separated words are what a reader of SQL sees: \<open>sql_words [] s\<close>
  splits \<open>s\<close> at blanks and line breaks and drops the empty pieces (the first
  argument is the word being read).
\<close>

definition is_space :: "char \<Rightarrow> bool" where
  "is_space c \<longleftrightarrow> c = CHR '' '' \<or> c = CHR 0x0A"

fun sql_words :: "string \<Rightarrow> string \<Rightarrow> string list" where
  "sql_words w [] = (if w = [] then [] else [w])"
| "sql_words w (c # cs) =
     (if is_space c then (if w = [] then [] else [w]) @ sql_words [] cs
      else sql_words (w @ [c]) cs)"

abbreviation comma_free :: "string \<Rightarrow> bool" where
  "comma_free s \<equiv> CHR '','' \<notin> set s"

abbreviation resolved_version :: "versions \<Rightarrow> kwargs \<Rightarrow> version" where
  "resolved_version V kw \<equiv> (case kw_version kw of None \<Rightarrow> mds_lower V | Some v \<Rightarrow> v)"

section \<open>Properties\<close>

subsection \<open>The heap after a call, and the string a call returns\<close>

lemma module_loadedD:
  assumes "module_loaded h"
  shows "2 \<le> length h"
    and "h ! COMMON_INSERTS = module_heap ! 0"
    and "h ! COMMON_SELECTS = module_heap ! 1"
proof -
  from assms have t: "take 2 h = module_heap"
    by (simp add: module_loaded_def)
  have "length (take 2 h) = 2"
    unfolding t by (simp add: module_heap_def)
  then show "2 \<le> length h" by simp
  have "take 2 h ! 0 = h ! 0" "take 2 h ! 1 = h ! 1" by simp_all
  then show "h ! COMMON_INSERTS = module_heap ! 0" "h ! COMMON_SELECTS = module_heap ! 1"
    by (simp_all add: t COMMON_INSERTS_def COMMON_SELECTS_def)
qed

lemma module_loaded_append:
  assumes "module_loaded h"
  shows "module_loaded (h @ hs)"
  using assms module_loadedD(1) [OF assms] by (simp add: module_loaded_def)

lemma length_list_extend [simp]: "length (list_extend r ys h) = length h"
  by (simp add: list_extend_def)

text \<open>Two fresh copies, each extended twice: only the two new objects change.\<close>

lemma two_copies_extended:
  "list_extend (Suc (length h)) d
     (list_extend (length h) c
        (list_extend (Suc (length h)) b (list_extend (length h) a (h @ [x]) @ [y])))
   = h @ [x @ a @ c, y @ b @ d]"
  by (simp add: list_extend_def nth_append list_update_append)

lemma selects_after_first_copy:
  assumes "2 \<le> length h"
  shows "list_extend (length h) a (h @ [x]) ! COMMON_SELECTS = h ! COMMON_SELECTS"
  using assms by (simp add: list_extend_def nth_append COMMON_SELECTS_def)

lemma insert_status_changes_from_heap:
  assumes "2 \<le> length h" and "\<not> unsupported V (resolved_version V kw)"
  shows "snd (insert_status_changes_from V src dst kw h) =
    h @ [h ! COMMON_INSERTS
           @ [''event_type'', ''event_type_reason'', ''event_location'', ''battery_pct'']
           @ (if version_less (resolved_version V kw) (Version 0 3 0)
              then [''event_time'', ''associated_trips'']
              else [''event_time'', ''publication_time'', ''associated_trip'']),
         h ! COMMON_SELECTS
           @ [''cast(event_type as event_types)'',
              ''cast(event_type_reason as event_type_reasons)'',
              ''cast(event_location as jsonb)'',
              ''battery_pct'']
           @ (if version_less (resolved_version V kw) (Version 0 3 0)
              then [''to_timestamp(event_time) at time zone 'UTC'' @ apostrophe,
                    ''cast(associated_trips as uuid[])'']
              else [''to_timestamp(cast(event_time as double precision) / 1000.0) at time zone 'UTC''
                      @ apostrophe,
                    ''to_timestamp(cast(publication_time as double precision) / 1000.0) at time zone 'UTC''
                      @ apostrophe,
                    ''cast(associated_trip as uuid)''])]"
  using assms
  by (simp add: insert_status_changes_from_def py_list_def Let_def two_copies_extended
      selects_after_first_copy del: append.simps list.simps)

lemma insert_trips_from_heap:
  assumes "2 \<le> length h" and "\<not> unsupported V (resolved_version V kw)"
  shows "snd (insert_trips_from V src dst kw h) =
    h @ [h ! COMMON_INSERTS
           @ [''trip_id'', ''trip_duration'', ''trip_distance'', ''route'', ''accuracy'',
              ''parking_verification_url'', ''standard_cost'', ''actual_cost'']
           @ (if version_less (resolved_version V kw) (Version 0 3 0)
              then [''start_time'', ''end_time'']
              else [''start_time'', ''end_time'', ''publication_time'']),
         h ! COMMON_SELECTS
           @ [''cast(trip_id as uuid)'',
              ''trip_duration'',
              ''trip_distance'',
              ''cast(route as jsonb)'',
              ''accuracy'',
              ''parking_verification_url,'' @ ''standard_cost,'' @ ''actual_cost'']
           @ (if version_less (resolved_version V kw) (Version 0 3 0)
              then [''to_timestamp(start_time) at time zone 'UTC'' @ apostrophe,
                    ''to_timestamp(end_time) at time zone 'UTC'' @ apostrophe]
              else [''to_timestamp(cast(start_time as double precision) / 1000.0) at time zone 'UTC''
                      @ apostrophe,
                    ''to_timestamp(cast(end_time as double precision) / 1000.0) at time zone 'UTC''
                      @ apostrophe,
                    ''to_timestamp(cast(publication_time as double precision) / 1000.0) at time zone 'UTC''
                      @ apostrophe])]"
  using assms
  by (simp add: insert_trips_from_def py_list_def Let_def two_copies_extended
      selects_after_first_copy del: append.simps list.simps)

text \<open>
  The string a call returns, in terms of the two lists that the call has built: they
  are the objects at \<open>length h\<close> (the local \<^verbatim>\<open>inserts\<close>) and at
  \<open>Suc (length h)\<close> (the local \<^verbatim>\<open>selects\<close>) of the heap after the call.
\<close>

lemma insert_status_changes_from_string:
  \<open>fst (insert_status_changes_from V src dst kw h) =
    (if unsupported V (resolved_version V kw)
     then Inl (UnsupportedVersionError (resolved_version V kw))
     else Inr (''\<newline>    INSERT INTO "''
               @ (case dst of None \<Rightarrow> STATUS_CHANGES | Some d \<Rightarrow> d)
               @ ''"\<newline>    (''
               @ join '','' (snd (insert_status_changes_from V src dst kw h) ! length h)
               @ '')\<newline>    SELECT ''
               @ join '','' (snd (insert_status_changes_from V src dst kw h) ! Suc (length h))
               @ ''\<newline>    FROM "'' @ src @ ''"\<newline>    ''
               @ on_conflict_statement
                   (Some (case kw_on_conflict_update kw of None \<Rightarrow> PyNone | Some x \<Rightarrow> x))
               @ ''\<newline>    ;\<newline>    ''))\<close>
  by (simp add: insert_status_changes_from_def py_list_def Let_def
      del: append.simps list.simps)

lemma insert_trips_from_string:
  \<open>fst (insert_trips_from V src dst kw h) =
    (if unsupported V (resolved_version V kw)
     then Inl (UnsupportedVersionError (resolved_version V kw))
     else Inr (''\<newline>    INSERT INTO "''
               @ (case dst of None \<Rightarrow> TRIPS | Some d \<Rightarrow> d)
               @ ''"\<newline>    (''
               @ join '','' (snd (insert_trips_from V src dst kw h) ! length h)
               @ '')\<newline>    SELECT ''
               @ join '','' (snd (insert_trips_from V src dst kw h) ! Suc (length h))
               @ ''\<newline>    FROM "'' @ src @ ''"\<newline>    ''
               @ on_conflict_statement
                   (Some (case kw_on_conflict_update kw of None \<Rightarrow> PyNone | Some x \<Rightarrow> x))
               @ ''\<newline>    ;\<newline>    ''))\<close>
  by (simp add: insert_trips_from_def py_list_def Let_def del: append.simps list.simps)

lemma unsupported_heap_unchanged:
  assumes "unsupported V (resolved_version V kw)"
  shows "snd (insert_status_changes_from V src dst kw h) = h"
    and "snd (insert_trips_from V src dst kw h) = h"
  using assms by (simp_all add: insert_status_changes_from_def insert_trips_from_def Let_def)

lemma module_loaded_module_heap: "module_loaded module_heap"
  by (simp add: module_loaded_def module_heap_def)

lemma nth_new_objects:
  "(h @ [a, b]) ! length h = a" "(h @ [a, b]) ! Suc (length h) = b"
  by (simp_all add: nth_append)

lemma insert_status_changes_from_loaded:
  assumes "module_loaded h"
  shows "fst (insert_status_changes_from V src dst kw h)
       = fst (insert_status_changes_from V src dst kw module_heap)"
proof (cases "unsupported V (resolved_version V kw)")
  case True
  then show ?thesis by (simp add: insert_status_changes_from_string)
next
  case False
  have "snd (insert_status_changes_from V src dst kw h) ! length h
      = snd (insert_status_changes_from V src dst kw module_heap) ! length module_heap"
    and "snd (insert_status_changes_from V src dst kw h) ! Suc (length h)
      = snd (insert_status_changes_from V src dst kw module_heap) ! Suc (length module_heap)"
    by (simp_all only: insert_status_changes_from_heap [OF module_loadedD(1) [OF assms] False]
        insert_status_changes_from_heap [OF module_loadedD(1) [OF module_loaded_module_heap] False]
        nth_new_objects module_loadedD(2,3) [OF assms]
        module_loadedD(2,3) [OF module_loaded_module_heap])
  then show ?thesis
    by (simp only: insert_status_changes_from_string)
qed

lemma insert_trips_from_loaded:
  assumes "module_loaded h"
  shows "fst (insert_trips_from V src dst kw h)
       = fst (insert_trips_from V src dst kw module_heap)"
proof (cases "unsupported V (resolved_version V kw)")
  case True
  then show ?thesis by (simp add: insert_trips_from_string)
next
  case False
  have "snd (insert_trips_from V src dst kw h) ! length h
      = snd (insert_trips_from V src dst kw module_heap) ! length module_heap"
    and "snd (insert_trips_from V src dst kw h) ! Suc (length h)
      = snd (insert_trips_from V src dst kw module_heap) ! Suc (length module_heap)"
    by (simp_all only: insert_trips_from_heap [OF module_loadedD(1) [OF assms] False]
        insert_trips_from_heap [OF module_loadedD(1) [OF module_loaded_module_heap] False]
        nth_new_objects module_loadedD(2,3) [OF assms]
        module_loadedD(2,3) [OF module_loaded_module_heap])
  then show ?thesis
    by (simp only: insert_trips_from_string)
qed

lemma call_keeps_module_loaded:
  assumes "module_loaded h"
  shows "module_loaded (snd (insert_status_changes_from V src dst kw h))"
    and "module_loaded (snd (insert_trips_from V src dst kw h))"
    and "take (length h) (snd (insert_status_changes_from V src dst kw h)) = h"
    and "take (length h) (snd (insert_trips_from V src dst kw h)) = h"
  using assms module_loadedD(1) [OF assms]
  by (cases "unsupported V (resolved_version V kw)";
      simp add: unsupported_heap_unchanged insert_status_changes_from_heap
        insert_trips_from_heap module_loaded_append del: append.simps list.simps)+

lemma sql_words_prefix_cong:
  assumes "\<And>w. sql_words w a = sql_words w b"
  shows "sql_words w (x @ a) = sql_words w (x @ b)"
  using assms by (induction x arbitrary: w) simp_all

lemma template_words:
  \<open>sql_words []
      (''\<newline>    INSERT INTO "'' @ d @ ''"\<newline>    ('' @ c @ '')\<newline>    SELECT '' @ e
         @ ''\<newline>    FROM "'' @ s @ ''"\<newline>    '' @ oc @ ''\<newline>    ;\<newline>    '')
    = sql_words [] (''INSERT INTO "'' @ d @ ''" ('' @ c @ '') SELECT '' @ e
         @ '' FROM "'' @ s @ ''" '' @ oc @ '' ;'')\<close>
proof -
  have 1: \<open>sql_words w (oc @ ''\<newline>    ;\<newline>    '') = sql_words w (oc @ '' ;'')\<close> for w
    by (rule sql_words_prefix_cong) (simp add: is_space_def)
  have 2: \<open>sql_words w (s @ ''"\<newline>    '' @ oc @ ''\<newline>    ;\<newline>    '')
      = sql_words w (s @ ''" '' @ oc @ '' ;'')\<close> for w
    by (rule sql_words_prefix_cong) (simp add: is_space_def 1)
  have 3: \<open>sql_words w (e @ ''\<newline>    FROM "'' @ s @ ''"\<newline>    '' @ oc @ ''\<newline>    ;\<newline>    '')
      = sql_words w (e @ '' FROM "'' @ s @ ''" '' @ oc @ '' ;'')\<close> for w
    by (rule sql_words_prefix_cong) (use 2 in \<open>simp add: is_space_def\<close>)
  have 4: \<open>sql_words w (c @ '')\<newline>    SELECT '' @ e @ ''\<newline>    FROM "'' @ s @ ''"\<newline>    '' @ oc @ ''\<newline>    ;\<newline>    '')
      = sql_words w (c @ '') SELECT '' @ e @ '' FROM "'' @ s @ ''" '' @ oc @ '' ;'')\<close> for w
    by (rule sql_words_prefix_cong) (use 3 in \<open>simp add: is_space_def\<close>)
  have 5: \<open>sql_words w (d @ ''"\<newline>    ('' @ c @ '')\<newline>    SELECT '' @ e @ ''\<newline>    FROM "'' @ s @ ''"\<newline>    '' @ oc @ ''\<newline>    ;\<newline>    '')
      = sql_words w (d @ ''" ('' @ c @ '') SELECT '' @ e @ '' FROM "'' @ s @ ''" '' @ oc @ '' ;'')\<close> for w
    by (rule sql_words_prefix_cong) (use 4 in \<open>simp add: is_space_def\<close>)
  show ?thesis
    using 5 by (simp add: is_space_def)
qed

lemma on_conflict_statement_default:
  "on_conflict_statement (Some (case oc of None \<Rightarrow> PyNone | Some x \<Rightarrow> x)) = on_conflict_statement oc"
  by (cases oc) (simp_all add: on_conflict_statement_def)

lemma status_change_lists_loaded:
  assumes "module_loaded h" and "\<not> unsupported V (resolved_version V kw)"
  shows "snd (insert_status_changes_from V src dst kw h) ! length h =
           [''provider_id'', ''provider_name'', ''device_id'', ''vehicle_id'', ''vehicle_type'',
            ''propulsion_type'', ''event_type'', ''event_type_reason'', ''event_location'',
            ''battery_pct'']
           @ (if version_less (resolved_version V kw) (Version 0 3 0)
              then [''event_time'', ''associated_trips'']
              else [''event_time'', ''publication_time'', ''associated_trip''])"
    and "snd (insert_status_changes_from V src dst kw h) ! Suc (length h) =
           [''cast(provider_id as uuid)'', ''provider_name'', ''cast(device_id as uuid)'',
            ''vehicle_id,cast(vehicle_type as vehicle_types)'',
            ''cast(propulsion_type as propulsion_types[])'',
            ''cast(event_type as event_types)'',
            ''cast(event_type_reason as event_type_reasons)'',
            ''cast(event_location as jsonb)'',
            ''battery_pct'']
           @ (if version_less (resolved_version V kw) (Version 0 3 0)
              then [''to_timestamp(event_time) at time zone 'UTC'' @ apostrophe,
                    ''cast(associated_trips as uuid[])'']
              else [''to_timestamp(cast(event_time as double precision) / 1000.0) at time zone 'UTC''
                      @ apostrophe,
                    ''to_timestamp(cast(publication_time as double precision) / 1000.0) at time zone 'UTC''
                      @ apostrophe,
                    ''cast(associated_trip as uuid)''])"
  unfolding insert_status_changes_from_heap [OF module_loadedD(1) [OF assms(1)] assms(2)]
    nth_new_objects module_loadedD(2,3) [OF assms(1)]
  by (simp_all add: module_heap_def)

lemma trip_lists_loaded:
  assumes "module_loaded h" and "\<not> unsupported V (resolved_version V kw)"
  shows "snd (insert_trips_from V src dst kw h) ! length h =
           [''provider_id'', ''provider_name'', ''device_id'', ''vehicle_id'', ''vehicle_type'',
            ''propulsion_type'', ''trip_id'', ''trip_duration'', ''trip_distance'', ''route'',
            ''accuracy'', ''parking_verification_url'', ''standard_cost'', ''actual_cost'']
           @ (if version_less (resolved_version V kw) (Version 0 3 0)
              then [''start_time'', ''end_time'']
              else [''start_time'', ''end_time'', ''publication_time''])"
    and "snd (insert_trips_from V src dst kw h) ! Suc (length h) =
           [''cast(provider_id as uuid)'', ''provider_name'', ''cast(device_id as uuid)'',
            ''vehicle_id,cast(vehicle_type as vehicle_types)'',
            ''cast(propulsion_type as propulsion_types[])'',
            ''cast(trip_id as uuid)'',
            ''trip_duration'',
            ''trip_distance'',
            ''cast(route as jsonb)'',
            ''accuracy'',
            ''parking_verification_url,standard_cost,actual_cost'']
           @ (if version_less (resolved_version V kw) (Version 0 3 0)
              then [''to_timestamp(start_time) at time zone 'UTC'' @ apostrophe,
                    ''to_timestamp(end_time) at time zone 'UTC'' @ apostrophe]
              else [''to_timestamp(cast(start_time as double precision) / 1000.0) at time zone 'UTC''
                      @ apostrophe,
                    ''to_timestamp(cast(end_time as double precision) / 1000.0) at time zone 'UTC''
                      @ apostrophe,
                    ''to_timestamp(cast(publication_time as double precision) / 1000.0) at time zone 'UTC''
                      @ apostrophe])"
  unfolding insert_trips_from_heap [OF module_loadedD(1) [OF assms(1)] assms(2)]
    nth_new_objects module_loadedD(2,3) [OF assms(1)]
  by (simp_all add: module_heap_def)

subsection \<open>Unsupported versions\<close>

text \<open>
  C2. When the version that a call resolves (the keyword \<^verbatim>\<open>version\<close>, or
  \<^verbatim>\<open>Version.mds_lower()\<close> when it is not passed) is unsupported, both
  \<open>insert_status_changes_from\<close> and \<open>insert_trips_from\<close> raise
  \<open>UnsupportedVersionError\<close> with that version, whatever the other arguments are;
  no string is returned, and the heap is as it was.
\<close>

theorem unsupported_version_raises:
  assumes "unsupported V (resolved_version V kw)"
  shows "insert_status_changes_from V src dst kw h
           = (Inl (UnsupportedVersionError (resolved_version V kw)), h)
       \<and> insert_trips_from V src dst kw h
           = (Inl (UnsupportedVersionError (resolved_version V kw)), h)
       \<and> (\<forall>s. fst (insert_status_changes_from V src dst kw h) \<noteq> Inr s)
       \<and> (\<forall>s. fst (insert_trips_from V src dst kw h) \<noteq> Inr s)"
  using assms by (simp add: insert_status_changes_from_def insert_trips_from_def Let_def)

theorem unsupported_version_raises_witness:
  "(let V = \<lparr>unsupported = (\<lambda>v. \<not> version_less v (Version 0 5 0)), mds_lower = Version 0 2 0\<rparr>;
        kw = \<lparr>kw_version = Some (Version 0 9 0), kw_on_conflict_update = None\<rparr>
    in unsupported V (resolved_version V kw)
     \<and> insert_status_changes_from V ''stage'' None kw module_heap
         = (Inl (UnsupportedVersionError (Version 0 9 0)), module_heap)
     \<and> insert_trips_from V ''stage'' None kw module_heap
         = (Inl (UnsupportedVersionError (Version 0 9 0)), module_heap))"
  using unsupported_version_raises
    [of "\<lparr>unsupported = (\<lambda>v. \<not> version_less v (Version 0 5 0)), mds_lower = Version 0 2 0\<rparr>"
        "\<lparr>kw_version = Some (Version 0 9 0), kw_on_conflict_update = None\<rparr>"
        "''stage''" None module_heap]
  by (simp add: version_less_def Let_def)

subsection \<open>Determinism and the module tables\<close>

text \<open>
  C8. Two calls with the same arguments return the same string (or raise the same
  error), whenever each of them starts in a state where the two module tables hold
  their initial elements: the rest of the heap, which earlier calls have filled, has no
  influence. In particular a call repeated right after itself returns the same string.
  \<open>on_conflict_statement\<close> reads nothing but its argument.
\<close>

theorem deterministic_output:
  assumes "module_loaded h1" and "module_loaded h2"
  shows "fst (insert_status_changes_from V src dst kw h1)
           = fst (insert_status_changes_from V src dst kw h2)
       \<and> fst (insert_trips_from V src dst kw h1) = fst (insert_trips_from V src dst kw h2)
       \<and> fst (insert_status_changes_from V src dst kw (snd (insert_status_changes_from V src dst kw h1)))
           = fst (insert_status_changes_from V src dst kw h1)
       \<and> fst (insert_trips_from V src dst kw (snd (insert_trips_from V src dst kw h1)))
           = fst (insert_trips_from V src dst kw h1)
       \<and> (a = b \<longrightarrow> on_conflict_statement a = on_conflict_statement b)"
  using insert_status_changes_from_loaded [OF assms(1)] insert_status_changes_from_loaded [OF assms(2)]
    insert_trips_from_loaded [OF assms(1)] insert_trips_from_loaded [OF assms(2)]
    insert_status_changes_from_loaded [OF call_keeps_module_loaded(1) [OF assms(1)]]
    insert_trips_from_loaded [OF call_keeps_module_loaded(2) [OF assms(1)]]
  by simp


theorem deterministic_output_witness:
  "module_loaded module_heap \<and> module_loaded (module_heap @ [[''event_type'']])
   \<and> fst (insert_trips_from \<lparr>unsupported = (\<lambda>v. False), mds_lower = Version 0 2 0\<rparr> ''stage_trips''
          None \<lparr>kw_version = None, kw_on_conflict_update = None\<rparr> module_heap)
     = fst (insert_trips_from \<lparr>unsupported = (\<lambda>v. False), mds_lower = Version 0 2 0\<rparr> ''stage_trips''
          None \<lparr>kw_version = None, kw_on_conflict_update = None\<rparr> (module_heap @ [[''event_type'']]))
   \<and> on_conflict_statement None = on_conflict_statement None"
  using deterministic_output
    [of module_heap "module_heap @ [[''event_type'']]"
        "\<lparr>unsupported = (\<lambda>v. False), mds_lower = Version 0 2 0\<rparr>" "''stage_trips''" None
        "\<lparr>kw_version = None, kw_on_conflict_update = None\<rparr>" None None]
  by (simp add: module_loaded_def module_heap_def)

text \<open>
  C9. A call of either builder leaves every object that was on the heap before the call
  as it was, and only adds the two lists it builds: the module tables
  \<^verbatim>\<open>_COMMON_INSERTS\<close> and \<^verbatim>\<open>_COMMON_SELECTS\<close> hold their initial
  elements after the call, and a later call of either builder returns what it would have
  returned without the earlier one. \<open>on_conflict_statement\<close> has no access to
  the heap at all.
\<close>

theorem module_tables_unchanged:
  assumes "module_loaded h"
  shows "take (length h) (snd (insert_status_changes_from V src dst kw h)) = h
       \<and> take (length h) (snd (insert_trips_from V src dst kw h)) = h
       \<and> snd (insert_status_changes_from V src dst kw h) ! COMMON_INSERTS = module_heap ! COMMON_INSERTS
       \<and> snd (insert_status_changes_from V src dst kw h) ! COMMON_SELECTS = module_heap ! COMMON_SELECTS
       \<and> snd (insert_trips_from V src dst kw h) ! COMMON_INSERTS = module_heap ! COMMON_INSERTS
       \<and> snd (insert_trips_from V src dst kw h) ! COMMON_SELECTS = module_heap ! COMMON_SELECTS
       \<and> fst (insert_status_changes_from V' src' dst' kw' (snd (insert_trips_from V src dst kw h)))
           = fst (insert_status_changes_from V' src' dst' kw' h)
       \<and> fst (insert_trips_from V' src' dst' kw' (snd (insert_status_changes_from V src dst kw h)))
           = fst (insert_trips_from V' src' dst' kw' h)"
proof -
  note keeps = call_keeps_module_loaded [OF assms, of V src dst kw]
  have "snd (insert_status_changes_from V src dst kw h) ! COMMON_INSERTS = module_heap ! COMMON_INSERTS"
    and "snd (insert_status_changes_from V src dst kw h) ! COMMON_SELECTS = module_heap ! COMMON_SELECTS"
    using module_loadedD(2,3) [OF keeps(1)] by (simp_all add: COMMON_INSERTS_def COMMON_SELECTS_def)
  moreover have "snd (insert_trips_from V src dst kw h) ! COMMON_INSERTS = module_heap ! COMMON_INSERTS"
    and "snd (insert_trips_from V src dst kw h) ! COMMON_SELECTS = module_heap ! COMMON_SELECTS"
    using module_loadedD(2,3) [OF keeps(2)] by (simp_all add: COMMON_INSERTS_def COMMON_SELECTS_def)
  moreover have "fst (insert_status_changes_from V' src' dst' kw' (snd (insert_trips_from V src dst kw h)))
           = fst (insert_status_changes_from V' src' dst' kw' h)"
    using insert_status_changes_from_loaded [OF keeps(2)] insert_status_changes_from_loaded [OF assms]
    by simp
  moreover have "fst (insert_trips_from V' src' dst' kw' (snd (insert_status_changes_from V src dst kw h)))
           = fst (insert_trips_from V' src' dst' kw' h)"
    using insert_trips_from_loaded [OF keeps(1)] insert_trips_from_loaded [OF assms]
    by simp
  ultimately show ?thesis
    using keeps(3,4) by simp
qed

theorem module_tables_unchanged_witness:
  "module_loaded module_heap
   \<and> take (length module_heap)
        (snd (insert_status_changes_from \<lparr>unsupported = (\<lambda>v. False), mds_lower = Version 0 2 0\<rparr>
           ''stage'' None \<lparr>kw_version = None, kw_on_conflict_update = None\<rparr> module_heap))
      = module_heap
   \<and> snd (insert_trips_from \<lparr>unsupported = (\<lambda>v. False), mds_lower = Version 0 2 0\<rparr>
           ''stage'' None \<lparr>kw_version = None, kw_on_conflict_update = None\<rparr> module_heap)
        ! COMMON_SELECTS = module_heap ! COMMON_SELECTS"
  using module_tables_unchanged
    [of module_heap "\<lparr>unsupported = (\<lambda>v. False), mds_lower = Version 0 2 0\<rparr>" "''stage''" None
        "\<lparr>kw_version = None, kw_on_conflict_update = None\<rparr>"]
  by (simp add: module_loaded_def module_heap_def)

subsection \<open>The conflict clause\<close>

text \<open>
  C5. For a conflict directive that is a pair of a condition and actions,
  \<open>on_conflict_statement\<close> returns
  \<^verbatim>\<open>ON CONFLICT <condition> DO UPDATE SET <actions>\<close>, where the actions are the
  string itself when they are a string, the fragments joined by commas when they are a
  list, and the pairs \<^verbatim>\<open><column> = <value>\<close> joined by commas, in the order
  of the mapping's items, when they are a mapping. The mapping
  \<^verbatim>\<open>{"battery_pct": "EXCLUDED.battery_pct"}\<close> gives a clause that contains
  \<^verbatim>\<open>battery_pct = EXCLUDED.battery_pct\<close>.
\<close>

theorem on_conflict_statement_update:
  \<open>on_conflict_statement (Some (Tuple condition (Str s)))
       = ''ON CONFLICT '' @ condition @ '' DO UPDATE SET '' @ s
   \<and> on_conflict_statement (Some (Tuple condition (List xs)))
       = ''ON CONFLICT '' @ condition @ '' DO UPDATE SET '' @ join '','' xs
   \<and> on_conflict_statement (Some (Tuple condition (Dict kvs)))
       = ''ON CONFLICT '' @ condition @ '' DO UPDATE SET ''
           @ join '','' (map (\<lambda>(k, v). k @ '' = '' @ v) kvs)
   \<and> on_conflict_statement (Some (Tuple condition (List [x1, x2, x3])))
       = ''ON CONFLICT '' @ condition @ '' DO UPDATE SET '' @ x1 @ '','' @ x2 @ '','' @ x3
   \<and> on_conflict_statement (Some (Tuple condition (Dict [(k1, v1), (k2, v2)])))
       = ''ON CONFLICT '' @ condition @ '' DO UPDATE SET ''
           @ k1 @ '' = '' @ v1 @ '','' @ k2 @ '' = '' @ v2
   \<and> on_conflict_statement
         (Some (Tuple condition (Dict [(''battery_pct'', ''EXCLUDED.battery_pct'')])))
       = ''ON CONFLICT '' @ condition @ '' DO UPDATE SET battery_pct = EXCLUDED.battery_pct''
   \<and> sublist ''battery_pct = EXCLUDED.battery_pct''
         (on_conflict_statement
            (Some (Tuple condition (Dict [(''battery_pct'', ''EXCLUDED.battery_pct'')]))))\<close>
proof -
  have \<open>on_conflict_statement
         (Some (Tuple condition (Dict [(''battery_pct'', ''EXCLUDED.battery_pct'')])))
       = (''ON CONFLICT '' @ condition @ '' DO UPDATE SET '')
           @ ''battery_pct = EXCLUDED.battery_pct'' @ []\<close>
    by (simp add: on_conflict_statement_def)
  then have \<open>sublist ''battery_pct = EXCLUDED.battery_pct''
         (on_conflict_statement
            (Some (Tuple condition (Dict [(''battery_pct'', ''EXCLUDED.battery_pct'')]))))\<close>
    by (simp only: sublist_appendI)
  then show ?thesis
    by (simp add: on_conflict_statement_def)
qed

text \<open>
  C6. When the conflict directive is omitted (the keyword is not passed, or is
  \<^verbatim>\<open>None\<close>), \<open>on_conflict_statement\<close> returns exactly
  \<^verbatim>\<open>ON CONFLICT DO NOTHING\<close>, and the statements of both builders contain that
  clause, right before the closing \<^verbatim>\<open>;\<close>.
\<close>

theorem omitted_directive_does_nothing:
  assumes "\<not> unsupported V (resolved_version V kw)"
    and "kw_on_conflict_update kw = None \<or> kw_on_conflict_update kw = Some PyNone"
  shows \<open>on_conflict_statement None = ''ON CONFLICT DO NOTHING''
    \<and> on_conflict_statement (Some PyNone) = ''ON CONFLICT DO NOTHING''
    \<and> (\<exists>p. fst (insert_status_changes_from V src dst kw h)
              = Inr (p @ ''ON CONFLICT DO NOTHING'' @ ''\<newline>    ;\<newline>    ''))
    \<and> (\<exists>p. fst (insert_trips_from V src dst kw h)
              = Inr (p @ ''ON CONFLICT DO NOTHING'' @ ''\<newline>    ;\<newline>    ''))
    \<and> (\<exists>s. fst (insert_status_changes_from V src dst kw h) = Inr s
           \<and> sublist ''ON CONFLICT DO NOTHING'' s)
    \<and> (\<exists>s. fst (insert_trips_from V src dst kw h) = Inr s
           \<and> sublist ''ON CONFLICT DO NOTHING'' s)\<close>
proof -
  have oc: \<open>on_conflict_statement (kw_on_conflict_update kw) = ''ON CONFLICT DO NOTHING''\<close>
    using assms(2) by (auto simp add: on_conflict_statement_def)
  have a: \<open>fst (insert_status_changes_from V src dst kw h)
      = Inr ((''\<newline>    INSERT INTO "''
             @ (case dst of None \<Rightarrow> STATUS_CHANGES | Some d \<Rightarrow> d)
             @ ''"\<newline>    (''
             @ join '','' (snd (insert_status_changes_from V src dst kw h) ! length h)
             @ '')\<newline>    SELECT ''
             @ join '','' (snd (insert_status_changes_from V src dst kw h) ! Suc (length h))
             @ ''\<newline>    FROM "'' @ src @ ''"\<newline>    '')
             @ ''ON CONFLICT DO NOTHING'' @ ''\<newline>    ;\<newline>    '')\<close>
    using assms(1)
    by (simp only: insert_status_changes_from_string on_conflict_statement_default oc
        if_False append_assoc)
  have b: \<open>fst (insert_trips_from V src dst kw h)
      = Inr ((''\<newline>    INSERT INTO "''
             @ (case dst of None \<Rightarrow> TRIPS | Some d \<Rightarrow> d)
             @ ''"\<newline>    (''
             @ join '','' (snd (insert_trips_from V src dst kw h) ! length h)
             @ '')\<newline>    SELECT ''
             @ join '','' (snd (insert_trips_from V src dst kw h) ! Suc (length h))
             @ ''\<newline>    FROM "'' @ src @ ''"\<newline>    '')
             @ ''ON CONFLICT DO NOTHING'' @ ''\<newline>    ;\<newline>    '')\<close>
    using assms(1)
    by (simp only: insert_trips_from_string on_conflict_statement_default oc
        if_False append_assoc)
  have \<open>on_conflict_statement None = ''ON CONFLICT DO NOTHING''\<close>
    and \<open>on_conflict_statement (Some PyNone) = ''ON CONFLICT DO NOTHING''\<close>
    by (simp_all add: on_conflict_statement_def)
  moreover have \<open>\<exists>p. fst (insert_status_changes_from V src dst kw h)
              = Inr (p @ ''ON CONFLICT DO NOTHING'' @ ''\<newline>    ;\<newline>    '')\<close>
    using a by blast
  moreover have \<open>\<exists>p. fst (insert_trips_from V src dst kw h)
              = Inr (p @ ''ON CONFLICT DO NOTHING'' @ ''\<newline>    ;\<newline>    '')\<close>
    using b by blast
  moreover have \<open>\<exists>s. fst (insert_status_changes_from V src dst kw h) = Inr s
           \<and> sublist ''ON CONFLICT DO NOTHING'' s\<close>
    using a sublist_appendI by blast
  moreover have \<open>\<exists>s. fst (insert_trips_from V src dst kw h) = Inr s
           \<and> sublist ''ON CONFLICT DO NOTHING'' s\<close>
    using b sublist_appendI by blast
  ultimately show ?thesis by blast
qed

theorem omitted_directive_does_nothing_witness:
  \<open>\<not> unsupported \<lparr>unsupported = (\<lambda>v. version_less v (Version 0 2 0) \<or> \<not> version_less v (Version 0 5 0)),
       mds_lower = Version 0 2 0\<rparr> (Version 0 2 0)
   \<and> (kw_on_conflict_update \<lparr>kw_version = None, kw_on_conflict_update = None\<rparr> = None
        \<or> kw_on_conflict_update \<lparr>kw_version = None, kw_on_conflict_update = None\<rparr> = Some PyNone)
   \<and> on_conflict_statement None = ''ON CONFLICT DO NOTHING''
   \<and> (\<exists>s. fst (insert_trips_from \<lparr>unsupported = (\<lambda>v. version_less v (Version 0 2 0) \<or> \<not> version_less v (Version 0 5 0)),
       mds_lower = Version 0 2 0\<rparr>
                ''stage_trips'' None \<lparr>kw_version = None, kw_on_conflict_update = None\<rparr>
                module_heap) = Inr s
           \<and> sublist ''ON CONFLICT DO NOTHING'' s)\<close>
proof -
  define kw where \<open>kw = \<lparr>kw_version = None, kw_on_conflict_update = None\<rparr>\<close>
  define V where \<open>V = \<lparr>unsupported = (\<lambda>v. version_less v (Version 0 2 0) \<or> \<not> version_less v (Version 0 5 0)),
       mds_lower = Version 0 2 0\<rparr>\<close>
  have s: \<open>\<not> unsupported V (resolved_version V kw)\<close>
    by (simp add: V_def kw_def version_less_def)
  have o: \<open>kw_on_conflict_update kw = None \<or> kw_on_conflict_update kw = Some PyNone\<close>
    by (simp add: kw_def)
  note T = omitted_directive_does_nothing [OF s o, of "''stage_trips''" None module_heap]
  have \<open>\<not> unsupported V (Version 0 2 0)\<close>
    using s by (simp add: V_def kw_def)
  with o T show ?thesis
    unfolding V_def kw_def by (simp only: simp_thms)
qed

text \<open>
  C10. A value of \<^verbatim>\<open>on_conflict_update\<close> that is true in Python's sense and
  is not a tuple (a dict, a list or a string passed without a condition) gives
  \<^verbatim>\<open>ON CONFLICT DO NOTHING\<close>: no update clause and no error.
\<close>

theorem non_tuple_does_nothing:
  assumes "truthy x" and "\<not> isinstance_tuple x"
  shows "on_conflict_statement (Some x) = ''ON CONFLICT DO NOTHING''"
  using assms by (simp add: on_conflict_statement_def)

theorem non_tuple_does_nothing_witness:
  "truthy (Bare (Dict [(''battery_pct'', ''EXCLUDED.battery_pct'')]))
   \<and> \<not> isinstance_tuple (Bare (Dict [(''battery_pct'', ''EXCLUDED.battery_pct'')]))
   \<and> on_conflict_statement (Some (Bare (Dict [(''battery_pct'', ''EXCLUDED.battery_pct'')])))
       = ''ON CONFLICT DO NOTHING''
   \<and> on_conflict_statement (Some (Bare (List [''battery_pct = EXCLUDED.battery_pct''])))
       = ''ON CONFLICT DO NOTHING''
   \<and> on_conflict_statement (Some (Bare (Str ''battery_pct = EXCLUDED.battery_pct'')))
       = ''ON CONFLICT DO NOTHING''"
  using non_tuple_does_nothing [of "Bare (Dict [(''battery_pct'', ''EXCLUDED.battery_pct'')])"]
    non_tuple_does_nothing [of "Bare (List [''battery_pct = EXCLUDED.battery_pct''])"]
    non_tuple_does_nothing [of "Bare (Str ''battery_pct = EXCLUDED.battery_pct'')"]
  by simp

subsection \<open>The statement\<close>

text \<open>
  C7. For every supported version, source table, destination table and conflict
  directive, both builders return the text
  \<^verbatim>\<open>INSERT INTO "<dest>" (<cols>) SELECT <exprs> FROM "<source>" <on_conflict> ;\<close>
  with the table names in double quotes, where \<^verbatim>\<open><cols>\<close> and
  \<^verbatim>\<open><exprs>\<close> are the comma-joined lists that the call has built. The code
  lays the text out with a line break and four spaces where the template has a blank,
  and around it: the first two conjuncts give the exact string, the last two say that its
  words are those of the one-line template.
\<close>

theorem statement_template:
  assumes "\<not> unsupported V (resolved_version V kw)"
  shows \<open>fst (insert_status_changes_from V src dst kw h)
      = Inr (''\<newline>    INSERT INTO "''
             @ (case dst of None \<Rightarrow> STATUS_CHANGES | Some d \<Rightarrow> d)
             @ ''"\<newline>    (''
             @ join '','' (snd (insert_status_changes_from V src dst kw h) ! length h)
             @ '')\<newline>    SELECT ''
             @ join '','' (snd (insert_status_changes_from V src dst kw h) ! Suc (length h))
             @ ''\<newline>    FROM "'' @ src @ ''"\<newline>    ''
             @ on_conflict_statement (kw_on_conflict_update kw)
             @ ''\<newline>    ;\<newline>    '')
    \<and> fst (insert_trips_from V src dst kw h)
      = Inr (''\<newline>    INSERT INTO "''
             @ (case dst of None \<Rightarrow> TRIPS | Some d \<Rightarrow> d)
             @ ''"\<newline>    (''
             @ join '','' (snd (insert_trips_from V src dst kw h) ! length h)
             @ '')\<newline>    SELECT ''
             @ join '','' (snd (insert_trips_from V src dst kw h) ! Suc (length h))
             @ ''\<newline>    FROM "'' @ src @ ''"\<newline>    ''
             @ on_conflict_statement (kw_on_conflict_update kw)
             @ ''\<newline>    ;\<newline>    '')
    \<and> (\<exists>s. fst (insert_status_changes_from V src dst kw h) = Inr s
           \<and> sql_words [] s
             = sql_words []
                 (''INSERT INTO "'' @ (case dst of None \<Rightarrow> STATUS_CHANGES | Some d \<Rightarrow> d)
                  @ ''" (''
                  @ join '','' (snd (insert_status_changes_from V src dst kw h) ! length h)
                  @ '') SELECT ''
                  @ join '','' (snd (insert_status_changes_from V src dst kw h) ! Suc (length h))
                  @ '' FROM "'' @ src @ ''" ''
                  @ on_conflict_statement (kw_on_conflict_update kw) @ '' ;''))
    \<and> (\<exists>s. fst (insert_trips_from V src dst kw h) = Inr s
           \<and> sql_words [] s
             = sql_words []
                 (''INSERT INTO "'' @ (case dst of None \<Rightarrow> TRIPS | Some d \<Rightarrow> d)
                  @ ''" (''
                  @ join '','' (snd (insert_trips_from V src dst kw h) ! length h)
                  @ '') SELECT ''
                  @ join '','' (snd (insert_trips_from V src dst kw h) ! Suc (length h))
                  @ '' FROM "'' @ src @ ''" ''
                  @ on_conflict_statement (kw_on_conflict_update kw) @ '' ;''))\<close>
  using assms
  by (simp only: insert_status_changes_from_string insert_trips_from_string
      on_conflict_statement_default template_words if_False simp_thms sum.inject ex_simps
      HOL.simp_thms)

theorem statement_template_witness:
  \<open>\<not> unsupported \<lparr>unsupported = (\<lambda>v. version_less v (Version 0 2 0) \<or> \<not> version_less v (Version 0 5 0)),
       mds_lower = Version 0 2 0\<rparr> (Version 0 3 0)
   \<and> fst (insert_status_changes_from \<lparr>unsupported = (\<lambda>v. version_less v (Version 0 2 0) \<or> \<not> version_less v (Version 0 5 0)),
       mds_lower = Version 0 2 0\<rparr>
          ''stage_status_changes'' (Some ''status_changes_v3'')
          \<lparr>kw_version = Some (Version 0 3 0),
           kw_on_conflict_update =
             Some (Tuple ''(provider_id, device_id, event_time)''
                     (Dict [(''battery_pct'', ''EXCLUDED.battery_pct'')]))\<rparr>
          module_heap)
     = Inr (''\<newline>    INSERT INTO "status_changes_v3"\<newline>    (''
            @ ''provider_id,provider_name,device_id,vehicle_id,vehicle_type,propulsion_type,''
            @ ''event_type,event_type_reason,event_location,battery_pct,''
            @ ''event_time,publication_time,associated_trip''
            @ '')\<newline>    SELECT ''
            @ ''cast(provider_id as uuid),provider_name,cast(device_id as uuid),vehicle_id,''
            @ ''cast(vehicle_type as vehicle_types),cast(propulsion_type as propulsion_types[]),''
            @ ''cast(event_type as event_types),cast(event_type_reason as event_type_reasons),''
            @ ''cast(event_location as jsonb),battery_pct,''
            @ ''to_timestamp(cast(event_time as double precision) / 1000.0) at time zone 'UTC','' 
            @ ''to_timestamp(cast(publication_time as double precision) / 1000.0) at time zone 'UTC',''
            @ ''cast(associated_trip as uuid)''
            @ ''\<newline>    FROM "stage_status_changes"\<newline>    ''
            @ ''ON CONFLICT (provider_id, device_id, event_time) DO UPDATE SET ''
            @ ''battery_pct = EXCLUDED.battery_pct''
            @ ''\<newline>    ;\<newline>    '')\<close>
proof -
  define kw where \<open>kw = \<lparr>kw_version = Some (Version 0 3 0),
           kw_on_conflict_update =
             Some (Tuple ''(provider_id, device_id, event_time)''
                     (Dict [(''battery_pct'', ''EXCLUDED.battery_pct'')]))\<rparr>\<close>
  define V where \<open>V = \<lparr>unsupported = (\<lambda>v. version_less v (Version 0 2 0) \<or> \<not> version_less v (Version 0 5 0)),
       mds_lower = Version 0 2 0\<rparr>\<close>
  have s: \<open>\<not> unsupported V (resolved_version V kw)\<close>
    by (simp add: V_def kw_def version_less_def)
  have n: "\<not> version_less (resolved_version V kw) (Version 0 3 0)"
    by (simp add: kw_def version_less_def)
  note L = status_change_lists_loaded [OF module_loaded_module_heap s, unfolded if_not_P [OF n]]
  have \<open>fst (insert_status_changes_from V ''stage_status_changes'' (Some ''status_changes_v3'')
          kw module_heap)
     = Inr (''\<newline>    INSERT INTO "status_changes_v3"\<newline>    (''
            @ ''provider_id,provider_name,device_id,vehicle_id,vehicle_type,propulsion_type,''
            @ ''event_type,event_type_reason,event_location,battery_pct,''
            @ ''event_time,publication_time,associated_trip''
            @ '')\<newline>    SELECT ''
            @ ''cast(provider_id as uuid),provider_name,cast(device_id as uuid),vehicle_id,''
            @ ''cast(vehicle_type as vehicle_types),cast(propulsion_type as propulsion_types[]),''
            @ ''cast(event_type as event_types),cast(event_type_reason as event_type_reasons),''
            @ ''cast(event_location as jsonb),battery_pct,''
            @ ''to_timestamp(cast(event_time as double precision) / 1000.0) at time zone 'UTC','' 
            @ ''to_timestamp(cast(publication_time as double precision) / 1000.0) at time zone 'UTC',''
            @ ''cast(associated_trip as uuid)''
            @ ''\<newline>    FROM "stage_status_changes"\<newline>    ''
            @ ''ON CONFLICT (provider_id, device_id, event_time) DO UPDATE SET ''
            @ ''battery_pct = EXCLUDED.battery_pct''
            @ ''\<newline>    ;\<newline>    '')\<close>
    unfolding conjunct1 [OF statement_template [OF s]] L
    by (simp add: kw_def on_conflict_statement_def)
  moreover have \<open>\<not> unsupported V (Version 0 3 0)\<close>
    using s by (simp add: kw_def)
  ultimately show ?thesis
    unfolding V_def kw_def by (rule conjI [rotated])
qed

subsection \<open>The column lists\<close>

text \<open>
  C1 (the insert list and the select list have the same length and correspond position
  by position before they are joined) does not hold of the lists that the code builds.
  Evaluated on a call for version 0.3.0, which the version class supports here:
  \<open>insert_status_changes_from\<close> builds 13 insert columns and 12 select expressions,
  because \<^verbatim>\<open>"vehicle_id,"\<close> and the literal after it are one element, so from
  position 3 on each select expression sits one place before its column;
  \<open>insert_trips_from\<close> builds 17 insert columns and 14 select expressions, the three
  literals \<^verbatim>\<open>"parking_verification_url," "standard_cost," "actual_cost"\<close> being
  one element as well. The commas inside these elements are the ones that joining would
  have put there, so the joined text is not affected (see C3 and C4).
\<close>

theorem select_list_shorter_than_insert_list:
  "(let V = \<lparr>unsupported = (\<lambda>v. version_less v (Version 0 2 0) \<or> \<not> version_less v (Version 0 4 0)),
             mds_lower = Version 0 2 0\<rparr>;
        kw = \<lparr>kw_version = Some (Version 0 3 0), kw_on_conflict_update = None\<rparr>;
        sc = snd (insert_status_changes_from V ''stage_status_changes'' None kw module_heap);
        tr = snd (insert_trips_from V ''stage_trips'' None kw module_heap)
    in length (sc ! 2) = 13 \<and> length (sc ! 3) = 12
     \<and> sc ! 2 ! 3 = ''vehicle_id''
     \<and> sc ! 3 ! 3 = ''vehicle_id,cast(vehicle_type as vehicle_types)''
     \<and> sc ! 2 ! 4 = ''vehicle_type''
     \<and> sc ! 3 ! 4 = ''cast(propulsion_type as propulsion_types[])''
     \<and> length (tr ! 2) = 17 \<and> length (tr ! 3) = 14
     \<and> tr ! 2 ! 11 = ''parking_verification_url''
     \<and> tr ! 3 ! 10 = ''parking_verification_url,standard_cost,actual_cost'')"
proof -
  define V where "V = \<lparr>unsupported = (\<lambda>v. version_less v (Version 0 2 0) \<or> \<not> version_less v (Version 0 4 0)),
             mds_lower = Version 0 2 0\<rparr>"
  define kw where "kw = \<lparr>kw_version = Some (Version 0 3 0), kw_on_conflict_update = None\<rparr>"
  have sup: "\<not> unsupported V (resolved_version V kw)"
    by (simp add: V_def kw_def version_less_def)
  have ge: "\<not> version_less (resolved_version V kw) (Version 0 3 0)"
    by (simp add: kw_def version_less_def)
  have len: "length module_heap = 2" "Suc 2 = 3"
    by (simp_all add: module_heap_def)
  note sc = status_change_lists_loaded [OF module_loaded_module_heap sup, unfolded len if_not_P [OF ge]]
  note tr = trip_lists_loaded [OF module_loaded_module_heap sup, unfolded len if_not_P [OF ge]]
  show ?thesis
    unfolding Let_def V_def [symmetric] kw_def [symmetric] sc tr
    by simp
qed

text \<open>
  C3. For supported versions \<open>v1\<close> before 0.3.0 and \<open>v2\<close> from 0.3.0 on, the
  statement of \<open>insert_status_changes_from\<close> is the template filled with a list of
  (insert column, select expression) pairs, none of which contains a comma, so that the
  pairs are the comma-separated fields of the two joined lists, position by position.
  Built with \<open>v1\<close>, the pairs include \<^verbatim>\<open>associated_trips\<close> with
  \<^verbatim>\<open>cast(associated_trips as uuid[])\<close> and no column \<^verbatim>\<open>publication_time\<close>;
  built with \<open>v2\<close>, they include \<^verbatim>\<open>associated_trip\<close> with
  \<^verbatim>\<open>cast(associated_trip as uuid)\<close> and a column \<^verbatim>\<open>publication_time\<close>.
\<close>

theorem status_change_trip_association:
  assumes "module_loaded h"
    and "\<not> unsupported V v1" and "\<not> unsupported V v2"
    and "version_less v1 (Version 0 3 0)" and "\<not> version_less v2 (Version 0 3 0)"
  shows \<open>(\<exists>ces.
        fst (insert_status_changes_from V src dst
               \<lparr>kw_version = Some v1, kw_on_conflict_update = oc\<rparr> h)
          = Inr (''\<newline>    INSERT INTO "''
                 @ (case dst of None \<Rightarrow> STATUS_CHANGES | Some d \<Rightarrow> d)
                 @ ''"\<newline>    ('' @ join '','' (map fst ces)
                 @ '')\<newline>    SELECT '' @ join '','' (map snd ces)
                 @ ''\<newline>    FROM "'' @ src @ ''"\<newline>    ''
                 @ on_conflict_statement oc @ ''\<newline>    ;\<newline>    '')
        \<and> (\<forall>(c, e) \<in> set ces. comma_free c \<and> comma_free e)
        \<and> (''associated_trips'', ''cast(associated_trips as uuid[])'') \<in> set ces
        \<and> ''publication_time'' \<notin> fst ` set ces)
    \<and> (\<exists>ces.
        fst (insert_status_changes_from V src dst
               \<lparr>kw_version = Some v2, kw_on_conflict_update = oc\<rparr> h)
          = Inr (''\<newline>    INSERT INTO "''
                 @ (case dst of None \<Rightarrow> STATUS_CHANGES | Some d \<Rightarrow> d)
                 @ ''"\<newline>    ('' @ join '','' (map fst ces)
                 @ '')\<newline>    SELECT '' @ join '','' (map snd ces)
                 @ ''\<newline>    FROM "'' @ src @ ''"\<newline>    ''
                 @ on_conflict_statement oc @ ''\<newline>    ;\<newline>    '')
        \<and> (\<forall>(c, e) \<in> set ces. comma_free c \<and> comma_free e)
        \<and> (''associated_trip'', ''cast(associated_trip as uuid)'') \<in> set ces
        \<and> (''publication_time'',
             ''to_timestamp(cast(publication_time as double precision) / 1000.0) at time zone 'UTC''
               @ apostrophe) \<in> set ces
        \<and> ''associated_trips'' \<notin> fst ` set ces)\<close>
proof -
  define common where "common =
    [(''provider_id'', ''cast(provider_id as uuid)''),
     (''provider_name'', ''provider_name''),
     (''device_id'', ''cast(device_id as uuid)''),
     (''vehicle_id'', ''vehicle_id''),
     (''vehicle_type'', ''cast(vehicle_type as vehicle_types)''),
     (''propulsion_type'', ''cast(propulsion_type as propulsion_types[])''),
     (''event_type'', ''cast(event_type as event_types)''),
     (''event_type_reason'', ''cast(event_type_reason as event_type_reasons)''),
     (''event_location'', ''cast(event_location as jsonb)''),
     (''battery_pct'', ''battery_pct'')]"
  define ces1 where "ces1 = common @
    [(''event_time'', ''to_timestamp(event_time) at time zone 'UTC'' @ apostrophe),
     (''associated_trips'', ''cast(associated_trips as uuid[])'')]"
  define ces2 where "ces2 = common @
    [(''event_time'',
      ''to_timestamp(cast(event_time as double precision) / 1000.0) at time zone 'UTC'' @ apostrophe),
     (''publication_time'',
      ''to_timestamp(cast(publication_time as double precision) / 1000.0) at time zone 'UTC''
        @ apostrophe),
     (''associated_trip'', ''cast(associated_trip as uuid)'')]"
  define kw1 where "kw1 = \<lparr>kw_version = Some v1, kw_on_conflict_update = oc\<rparr>"
  define kw2 where "kw2 = \<lparr>kw_version = Some v2, kw_on_conflict_update = oc\<rparr>"
  have sup1: "\<not> unsupported V (resolved_version V kw1)"
    and old1: "version_less (resolved_version V kw1) (Version 0 3 0)"
    and sup2: "\<not> unsupported V (resolved_version V kw2)"
    and new2: "\<not> version_less (resolved_version V kw2) (Version 0 3 0)"
    using assms by (simp_all add: kw1_def kw2_def)
  have oc: "kw_on_conflict_update kw1 = oc" "kw_on_conflict_update kw2 = oc"
    by (simp_all add: kw1_def kw2_def)
  note L1 = status_change_lists_loaded [OF assms(1) sup1, unfolded if_P [OF old1]]
  note L2 = status_change_lists_loaded [OF assms(1) sup2, unfolded if_not_P [OF new2]]
  have j1: "join '','' (snd (insert_status_changes_from V src dst kw1 h) ! length h)
              = join '','' (map fst ces1)"
    "join '','' (snd (insert_status_changes_from V src dst kw1 h) ! Suc (length h))
              = join '','' (map snd ces1)"
    unfolding L1 by (simp_all add: ces1_def common_def)
  have j2: "join '','' (snd (insert_status_changes_from V src dst kw2 h) ! length h)
              = join '','' (map fst ces2)"
    "join '','' (snd (insert_status_changes_from V src dst kw2 h) ! Suc (length h))
              = join '','' (map snd ces2)"
    unfolding L2 by (simp_all add: ces2_def common_def)
  have s1: \<open>fst (insert_status_changes_from V src dst kw1 h)
          = Inr (''\<newline>    INSERT INTO "''
                 @ (case dst of None \<Rightarrow> STATUS_CHANGES | Some d \<Rightarrow> d)
                 @ ''"\<newline>    ('' @ join '','' (map fst ces1)
                 @ '')\<newline>    SELECT '' @ join '','' (map snd ces1)
                 @ ''\<newline>    FROM "'' @ src @ ''"\<newline>    ''
                 @ on_conflict_statement oc @ ''\<newline>    ;\<newline>    '')\<close>
    using sup1
    by (simp only: insert_status_changes_from_string j1 on_conflict_statement_default oc if_False)
  have s2: \<open>fst (insert_status_changes_from V src dst kw2 h)
          = Inr (''\<newline>    INSERT INTO "''
                 @ (case dst of None \<Rightarrow> STATUS_CHANGES | Some d \<Rightarrow> d)
                 @ ''"\<newline>    ('' @ join '','' (map fst ces2)
                 @ '')\<newline>    SELECT '' @ join '','' (map snd ces2)
                 @ ''\<newline>    FROM "'' @ src @ ''"\<newline>    ''
                 @ on_conflict_statement oc @ ''\<newline>    ;\<newline>    '')\<close>
    using sup2
    by (simp only: insert_status_changes_from_string j2 on_conflict_statement_default oc if_False)
  have c1: "\<forall>(c, e) \<in> set ces1. comma_free c \<and> comma_free e"
    and m1: "(''associated_trips'', ''cast(associated_trips as uuid[])'') \<in> set ces1"
    and n1: "''publication_time'' \<notin> fst ` set ces1"
    by (simp_all add: ces1_def common_def)
  have c2: "\<forall>(c, e) \<in> set ces2. comma_free c \<and> comma_free e"
    and m2: "(''associated_trip'', ''cast(associated_trip as uuid)'') \<in> set ces2"
    and p2: "(''publication_time'',
             ''to_timestamp(cast(publication_time as double precision) / 1000.0) at time zone 'UTC''
               @ apostrophe) \<in> set ces2"
    and n2: "''associated_trips'' \<notin> fst ` set ces2"
    by (simp_all add: ces2_def common_def)
  from s1 c1 m1 n1 have "\<exists>ces.
        fst (insert_status_changes_from V src dst kw1 h)
          = Inr (''\<newline>    INSERT INTO \"''
                 @ (case dst of None \<Rightarrow> STATUS_CHANGES | Some d \<Rightarrow> d)
                 @ ''\"\<newline>    ('' @ join '','' (map fst ces)
                 @ '')\<newline>    SELECT '' @ join '','' (map snd ces)
                 @ ''\<newline>    FROM \"'' @ src @ ''\"\<newline>    ''
                 @ on_conflict_statement oc @ ''\<newline>    ;\<newline>    '')
        \<and> (\<forall>(c, e) \<in> set ces. comma_free c \<and> comma_free e)
        \<and> (''associated_trips'', ''cast(associated_trips as uuid[])'') \<in> set ces
        \<and> ''publication_time'' \<notin> fst ` set ces"
    by (intro exI [of _ ces1] conjI)
  moreover from s2 c2 m2 p2 n2 have "\<exists>ces.
        fst (insert_status_changes_from V src dst kw2 h)
          = Inr (''\<newline>    INSERT INTO \"''
                 @ (case dst of None \<Rightarrow> STATUS_CHANGES | Some d \<Rightarrow> d)
                 @ ''\"\<newline>    ('' @ join '','' (map fst ces)
                 @ '')\<newline>    SELECT '' @ join '','' (map snd ces)
                 @ ''\<newline>    FROM \"'' @ src @ ''\"\<newline>    ''
                 @ on_conflict_statement oc @ ''\<newline>    ;\<newline>    '')
        \<and> (\<forall>(c, e) \<in> set ces. comma_free c \<and> comma_free e)
        \<and> (''associated_trip'', ''cast(associated_trip as uuid)'') \<in> set ces
        \<and> (''publication_time'',
             ''to_timestamp(cast(publication_time as double precision) / 1000.0) at time zone 'UTC''
               @ apostrophe) \<in> set ces
        \<and> ''associated_trips'' \<notin> fst ` set ces"
    by (intro exI [of _ ces2] conjI)
  ultimately show ?thesis
    unfolding kw1_def kw2_def by (rule conjI)
qed

theorem status_change_trip_association_witness:
  \<open>module_loaded module_heap
   \<and> \<not> unsupported \<lparr>unsupported = (\<lambda>v. version_less v (Version 0 2 0) \<or> \<not> version_less v (Version 0 5 0)),
       mds_lower = Version 0 2 0\<rparr> (Version 0 2 1)
   \<and> \<not> unsupported \<lparr>unsupported = (\<lambda>v. version_less v (Version 0 2 0) \<or> \<not> version_less v (Version 0 5 0)),
       mds_lower = Version 0 2 0\<rparr> (Version 0 3 1)
   \<and> version_less (Version 0 2 1) (Version 0 3 0)
   \<and> \<not> version_less (Version 0 3 1) (Version 0 3 0)
   \<and> ((\<exists>ces.
        fst (insert_status_changes_from \<lparr>unsupported = (\<lambda>v. version_less v (Version 0 2 0) \<or> \<not> version_less v (Version 0 5 0)),
       mds_lower = Version 0 2 0\<rparr> ''stage'' None
               \<lparr>kw_version = Some (Version 0 2 1), kw_on_conflict_update = None\<rparr> module_heap)
          = Inr (''\<newline>    INSERT INTO "''
                 @ (case None of None \<Rightarrow> STATUS_CHANGES | Some d \<Rightarrow> d)
                 @ ''"\<newline>    ('' @ join '','' (map fst ces)
                 @ '')\<newline>    SELECT '' @ join '','' (map snd ces)
                 @ ''\<newline>    FROM "'' @ ''stage'' @ ''"\<newline>    ''
                 @ on_conflict_statement None @ ''\<newline>    ;\<newline>    '')
        \<and> (\<forall>(c, e) \<in> set ces. comma_free c \<and> comma_free e)
        \<and> (''associated_trips'', ''cast(associated_trips as uuid[])'') \<in> set ces
        \<and> ''publication_time'' \<notin> fst ` set ces)
    \<and> (\<exists>ces.
        fst (insert_status_changes_from \<lparr>unsupported = (\<lambda>v. version_less v (Version 0 2 0) \<or> \<not> version_less v (Version 0 5 0)),
       mds_lower = Version 0 2 0\<rparr> ''stage'' None
               \<lparr>kw_version = Some (Version 0 3 1), kw_on_conflict_update = None\<rparr> module_heap)
          = Inr (''\<newline>    INSERT INTO "''
                 @ (case None of None \<Rightarrow> STATUS_CHANGES | Some d \<Rightarrow> d)
                 @ ''"\<newline>    ('' @ join '','' (map fst ces)
                 @ '')\<newline>    SELECT '' @ join '','' (map snd ces)
                 @ ''\<newline>    FROM "'' @ ''stage'' @ ''"\<newline>    ''
                 @ on_conflict_statement None @ ''\<newline>    ;\<newline>    '')
        \<and> (\<forall>(c, e) \<in> set ces. comma_free c \<and> comma_free e)
        \<and> (''associated_trip'', ''cast(associated_trip as uuid)'') \<in> set ces
        \<and> (''publication_time'',
             ''to_timestamp(cast(publication_time as double precision) / 1000.0) at time zone 'UTC''
               @ apostrophe) \<in> set ces
        \<and> ''associated_trips'' \<notin> fst ` set ces))\<close>
proof -
  have h: "module_loaded module_heap"
    by (rule module_loaded_module_heap)
  have s1: \<open>\<not> unsupported \<lparr>unsupported = (\<lambda>v. version_less v (Version 0 2 0) \<or> \<not> version_less v (Version 0 5 0)),
       mds_lower = Version 0 2 0\<rparr> (Version 0 2 1)\<close>
    and s2: \<open>\<not> unsupported \<lparr>unsupported = (\<lambda>v. version_less v (Version 0 2 0) \<or> \<not> version_less v (Version 0 5 0)),
       mds_lower = Version 0 2 0\<rparr> (Version 0 3 1)\<close>
    and o1: "version_less (Version 0 2 1) (Version 0 3 0)"
    and o2: "\<not> version_less (Version 0 3 1) (Version 0 3 0)"
    by (simp_all add: version_less_def)
  from status_change_trip_association [OF h s1 s2 o1 o2, of "''stage''" None None]
    h s1 s2 o1 o2
  show ?thesis
    by (simp only: simp_thms)
qed

text \<open>
  C4. \<^verbatim>\<open>insert_trips_from("stage_trips", version="0.2.1")\<close> returns a
  statement whose insert columns end with \<^verbatim>\<open>start_time,end_time\<close>, with no
  \<^verbatim>\<open>publication_time\<close>, and whose select expression for
  \<^verbatim>\<open>start_time\<close> is \<^verbatim>\<open>to_timestamp(start_time) at time zone 'UTC'\<close>;
  with \<^verbatim>\<open>version="0.4.0"\<close> the insert columns end with
  \<^verbatim>\<open>start_time,end_time,publication_time\<close> and the select expression for
  \<^verbatim>\<open>start_time\<close> is
  \<^verbatim>\<open>to_timestamp(cast(start_time as double precision) / 1000.0) at time zone 'UTC'\<close>.
  Whether the two versions are supported is decided by the version class, which is a
  parameter here.
\<close>

theorem trips_examples:
  assumes "module_loaded h"
    and "\<not> unsupported V (Version 0 2 1)" and "\<not> unsupported V (Version 0 4 0)"
  shows \<open>(\<exists>ces.
        fst (insert_trips_from V ''stage_trips'' None
               \<lparr>kw_version = Some (Version 0 2 1), kw_on_conflict_update = None\<rparr> h)
          = Inr (''\<newline>    INSERT INTO "'' @ TRIPS
                 @ ''"\<newline>    ('' @ join '','' (map fst ces)
                 @ '')\<newline>    SELECT '' @ join '','' (map snd ces)
                 @ ''\<newline>    FROM "stage_trips"\<newline>    ON CONFLICT DO NOTHING\<newline>    ;\<newline>    '')
        \<and> (\<forall>(c, e) \<in> set ces. comma_free c \<and> comma_free e)
        \<and> (\<exists>pre e. ces = pre @
              [(''start_time'', ''to_timestamp(start_time) at time zone 'UTC'' @ apostrophe),
               (''end_time'', e)])
        \<and> ''publication_time'' \<notin> fst ` set ces)
    \<and> (\<exists>ces.
        fst (insert_trips_from V ''stage_trips'' None
               \<lparr>kw_version = Some (Version 0 4 0), kw_on_conflict_update = None\<rparr> h)
          = Inr (''\<newline>    INSERT INTO "'' @ TRIPS
                 @ ''"\<newline>    ('' @ join '','' (map fst ces)
                 @ '')\<newline>    SELECT '' @ join '','' (map snd ces)
                 @ ''\<newline>    FROM "stage_trips"\<newline>    ON CONFLICT DO NOTHING\<newline>    ;\<newline>    '')
        \<and> (\<forall>(c, e) \<in> set ces. comma_free c \<and> comma_free e)
        \<and> (\<exists>pre e1 e2. ces = pre @
              [(''start_time'',
                ''to_timestamp(cast(start_time as double precision) / 1000.0) at time zone 'UTC''
                  @ apostrophe),
               (''end_time'', e1),
               (''publication_time'', e2)]))\<close>
proof -
  define common where "common =
    [(''provider_id'', ''cast(provider_id as uuid)''),
     (''provider_name'', ''provider_name''),
     (''device_id'', ''cast(device_id as uuid)''),
     (''vehicle_id'', ''vehicle_id''),
     (''vehicle_type'', ''cast(vehicle_type as vehicle_types)''),
     (''propulsion_type'', ''cast(propulsion_type as propulsion_types[])''),
     (''trip_id'', ''cast(trip_id as uuid)''),
     (''trip_duration'', ''trip_duration''),
     (''trip_distance'', ''trip_distance''),
     (''route'', ''cast(route as jsonb)''),
     (''accuracy'', ''accuracy''),
     (''parking_verification_url'', ''parking_verification_url''),
     (''standard_cost'', ''standard_cost''),
     (''actual_cost'', ''actual_cost'')]"
  define last1 where "last1 =
    [(''start_time'', ''to_timestamp(start_time) at time zone 'UTC'' @ apostrophe),
     (''end_time'', ''to_timestamp(end_time) at time zone 'UTC'' @ apostrophe)]"
  define last2 where "last2 =
    [(''start_time'',
      ''to_timestamp(cast(start_time as double precision) / 1000.0) at time zone 'UTC'' @ apostrophe),
     (''end_time'',
      ''to_timestamp(cast(end_time as double precision) / 1000.0) at time zone 'UTC'' @ apostrophe),
     (''publication_time'',
      ''to_timestamp(cast(publication_time as double precision) / 1000.0) at time zone 'UTC''
        @ apostrophe)]"
  define kw1 where "kw1 = \<lparr>kw_version = Some (Version 0 2 1), kw_on_conflict_update = None\<rparr>"
  define kw2 where "kw2 = \<lparr>kw_version = Some (Version 0 4 0), kw_on_conflict_update = None\<rparr>"
  have sup1: "\<not> unsupported V (resolved_version V kw1)"
    and sup2: "\<not> unsupported V (resolved_version V kw2)"
    using assms by (simp_all add: kw1_def kw2_def)
  have old1: "version_less (resolved_version V kw1) (Version 0 3 0)"
    and new2: "\<not> version_less (resolved_version V kw2) (Version 0 3 0)"
    by (simp_all add: kw1_def kw2_def version_less_def)
  have oc: "on_conflict_statement (kw_on_conflict_update kw1) = ''ON CONFLICT DO NOTHING''"
    "on_conflict_statement (kw_on_conflict_update kw2) = ''ON CONFLICT DO NOTHING''"
    by (simp_all add: kw1_def kw2_def on_conflict_statement_def)
  note L1 = trip_lists_loaded [OF assms(1) sup1, unfolded if_P [OF old1]]
  note L2 = trip_lists_loaded [OF assms(1) sup2, unfolded if_not_P [OF new2]]
  have j1: "join '','' (snd (insert_trips_from V ''stage_trips'' None kw1 h) ! length h)
              = join '','' (map fst (common @ last1))"
    "join '','' (snd (insert_trips_from V ''stage_trips'' None kw1 h) ! Suc (length h))
              = join '','' (map snd (common @ last1))"
    unfolding L1 by (simp_all add: last1_def common_def)
  have j2: "join '','' (snd (insert_trips_from V ''stage_trips'' None kw2 h) ! length h)
              = join '','' (map fst (common @ last2))"
    "join '','' (snd (insert_trips_from V ''stage_trips'' None kw2 h) ! Suc (length h))
              = join '','' (map snd (common @ last2))"
    unfolding L2 by (simp_all add: last2_def common_def)
  have s1: \<open>fst (insert_trips_from V ''stage_trips'' None kw1 h)
          = Inr (''\<newline>    INSERT INTO "'' @ TRIPS
                 @ ''"\<newline>    ('' @ join '','' (map fst (common @ last1))
                 @ '')\<newline>    SELECT '' @ join '','' (map snd (common @ last1))
                 @ ''\<newline>    FROM "stage_trips"\<newline>    ON CONFLICT DO NOTHING\<newline>    ;\<newline>    '')\<close>
    using sup1
    by (simp add: insert_trips_from_string j1 on_conflict_statement_default oc
        del: map_append)
  have s2: \<open>fst (insert_trips_from V ''stage_trips'' None kw2 h)
          = Inr (''\<newline>    INSERT INTO "'' @ TRIPS
                 @ ''"\<newline>    ('' @ join '','' (map fst (common @ last2))
                 @ '')\<newline>    SELECT '' @ join '','' (map snd (common @ last2))
                 @ ''\<newline>    FROM "stage_trips"\<newline>    ON CONFLICT DO NOTHING\<newline>    ;\<newline>    '')\<close>
    using sup2
    by (simp add: insert_trips_from_string j2 on_conflict_statement_default oc
        del: map_append)
  have c1: "\<forall>(c, e) \<in> set (common @ last1). comma_free c \<and> comma_free e"
    and n1: "''publication_time'' \<notin> fst ` set (common @ last1)"
    and c2: "\<forall>(c, e) \<in> set (common @ last2). comma_free c \<and> comma_free e"
    by (simp_all add: last1_def last2_def common_def)
  have e1: \<open>\<exists>pre e. common @ last1 = pre @
              [(''start_time'', ''to_timestamp(start_time) at time zone 'UTC'' @ apostrophe),
               (''end_time'', e)]\<close>
    unfolding last1_def by blast
  have e2: \<open>\<exists>pre e1 e2. common @ last2 = pre @
              [(''start_time'',
                ''to_timestamp(cast(start_time as double precision) / 1000.0) at time zone 'UTC''
                  @ apostrophe),
               (''end_time'', e1),
               (''publication_time'', e2)]\<close>
    unfolding last2_def by blast
  from s1 c1 e1 n1 have \<open>\<exists>ces.
        fst (insert_trips_from V ''stage_trips'' None
               kw1 h)
          = Inr (''\<newline>    INSERT INTO "'' @ TRIPS
                 @ ''"\<newline>    ('' @ join '','' (map fst ces)
                 @ '')\<newline>    SELECT '' @ join '','' (map snd ces)
                 @ ''\<newline>    FROM "stage_trips"\<newline>    ON CONFLICT DO NOTHING\<newline>    ;\<newline>    '')
        \<and> (\<forall>(c, e) \<in> set ces. comma_free c \<and> comma_free e)
        \<and> (\<exists>pre e. ces = pre @
              [(''start_time'', ''to_timestamp(start_time) at time zone 'UTC'' @ apostrophe),
               (''end_time'', e)])
        \<and> ''publication_time'' \<notin> fst ` set ces\<close>
    by - (rule exI [of _ "common @ last1"], intro conjI)
  moreover from s2 c2 e2 have \<open>\<exists>ces.
        fst (insert_trips_from V ''stage_trips'' None
               kw2 h)
          = Inr (''\<newline>    INSERT INTO "'' @ TRIPS
                 @ ''"\<newline>    ('' @ join '','' (map fst ces)
                 @ '')\<newline>    SELECT '' @ join '','' (map snd ces)
                 @ ''\<newline>    FROM "stage_trips"\<newline>    ON CONFLICT DO NOTHING\<newline>    ;\<newline>    '')
        \<and> (\<forall>(c, e) \<in> set ces. comma_free c \<and> comma_free e)
        \<and> (\<exists>pre e1 e2. ces = pre @
              [(''start_time'',
                ''to_timestamp(cast(start_time as double precision) / 1000.0) at time zone 'UTC''
                  @ apostrophe),
               (''end_time'', e1),
               (''publication_time'', e2)])\<close>
    by - (rule exI [of _ "common @ last2"], intro conjI)
  ultimately show ?thesis
    unfolding kw1_def kw2_def by (rule conjI)
qed

theorem trips_examples_witness:
  \<open>module_loaded module_heap
   \<and> \<not> unsupported \<lparr>unsupported = (\<lambda>v. version_less v (Version 0 2 0) \<or> \<not> version_less v (Version 0 5 0)),
       mds_lower = Version 0 2 0\<rparr> (Version 0 2 1)
   \<and> \<not> unsupported \<lparr>unsupported = (\<lambda>v. version_less v (Version 0 2 0) \<or> \<not> version_less v (Version 0 5 0)),
       mds_lower = Version 0 2 0\<rparr> (Version 0 4 0)
   \<and> ((\<exists>ces.
        fst (insert_trips_from \<lparr>unsupported = (\<lambda>v. version_less v (Version 0 2 0) \<or> \<not> version_less v (Version 0 5 0)),
       mds_lower = Version 0 2 0\<rparr> ''stage_trips'' None
               \<lparr>kw_version = Some (Version 0 2 1), kw_on_conflict_update = None\<rparr> module_heap)
          = Inr (''\<newline>    INSERT INTO "'' @ TRIPS
                 @ ''"\<newline>    ('' @ join '','' (map fst ces)
                 @ '')\<newline>    SELECT '' @ join '','' (map snd ces)
                 @ ''\<newline>    FROM "stage_trips"\<newline>    ON CONFLICT DO NOTHING\<newline>    ;\<newline>    '')
        \<and> (\<forall>(c, e) \<in> set ces. comma_free c \<and> comma_free e)
        \<and> (\<exists>pre e. ces = pre @
              [(''start_time'', ''to_timestamp(start_time) at time zone 'UTC'' @ apostrophe),
               (''end_time'', e)])
        \<and> ''publication_time'' \<notin> fst ` set ces)
    \<and> (\<exists>ces.
        fst (insert_trips_from \<lparr>unsupported = (\<lambda>v. version_less v (Version 0 2 0) \<or> \<not> version_less v (Version 0 5 0)),
       mds_lower = Version 0 2 0\<rparr> ''stage_trips'' None
               \<lparr>kw_version = Some (Version 0 4 0), kw_on_conflict_update = None\<rparr> module_heap)
          = Inr (''\<newline>    INSERT INTO "'' @ TRIPS
                 @ ''"\<newline>    ('' @ join '','' (map fst ces)
                 @ '')\<newline>    SELECT '' @ join '','' (map snd ces)
                 @ ''\<newline>    FROM "stage_trips"\<newline>    ON CONFLICT DO NOTHING\<newline>    ;\<newline>    '')
        \<and> (\<forall>(c, e) \<in> set ces. comma_free c \<and> comma_free e)
        \<and> (\<exists>pre e1 e2. ces = pre @
              [(''start_time'',
                ''to_timestamp(cast(start_time as double precision) / 1000.0) at time zone 'UTC''
                  @ apostrophe),
               (''end_time'', e1),
               (''publication_time'', e2)])))\<close>
proof -
  have h: "module_loaded module_heap"
    by (rule module_loaded_module_heap)
  have s1: \<open>\<not> unsupported \<lparr>unsupported = (\<lambda>v. version_less v (Version 0 2 0) \<or> \<not> version_less v (Version 0 5 0)),
       mds_lower = Version 0 2 0\<rparr> (Version 0 2 1)\<close>
    and s2: \<open>\<not> unsupported \<lparr>unsupported = (\<lambda>v. version_less v (Version 0 2 0) \<or> \<not> version_less v (Version 0 5 0)),
       mds_lower = Version 0 2 0\<rparr> (Version 0 4 0)\<close>
    by (simp_all add: version_less_def)
  from trips_examples [OF h s1 s2] h s1 s2
  show ?thesis
    by (simp only: simp_thms)
qed

end
